theory Spec2Isabelle
  imports Complex_Main "HOL-Library.List_Lexorder" "HOL-Library.Char_ord" "HOL-Library.Multiset"
begin

section \<open>Requests, response writers and the process state\<close>

text \<open>
  The repository is a Go HTTP service whose package \<open>middleware\<close> composes interceptors
  of type \<open>func(http.HandlerFunc) http.HandlerFunc\<close> and whose package \<open>cache\<close> adds a
  Redis-backed response cache. A handler mutates the response writer it is given and the
  shared objects it closes over, and it either returns or panics; here it is a function
  that takes the writer, the request and the process state and returns how it ended
  together with the writer and the state as it leaves them. A panic unwinds the callers:
  what they would have done after the call is not done.

  \<open>http.Header\<close> is \<open>map[string][]string\<close>. A request carries the fields the code reads:
  \<open>r.Method\<close>, \<open>r.URL.Path\<close>, the pairs of \<open>r.URL.Query()\<close> in the order they appear in
  the query string (already unescaped), \<open>r.Header\<close> and \<open>r.RemoteAddr\<close>. Tracing spans
  and the request context carry no data the modelled code branches on and are left out.
\<close>

type_synonym bytes = string
type_synonym header = "string \<rightharpoonup> string list"

record request =
  Method :: string
  URL_Path :: string
  URL_Query :: "(string \<times> string) list"
  Header :: header
  RemoteAddr :: string

datatype outcome = Returned | Panicked

text \<open>
  The server's own \<open>http.ResponseWriter\<close>: the live header map returned by \<open>Header()\<close>
  and the \<open>WriteHeader\<close> and \<open>Write\<close> calls that returned, in order. In \<open>net/http\<close> the status
  line is fixed by the first call that is not an informational \<open>WriteHeader\<close> (1xx other
  than 101): a \<open>Write\<close> that comes before sends status 200. Once the header is written a
  further \<open>WriteHeader\<close> is logged by the server and changes nothing. Before that,
  \<open>WriteHeader\<close> checks its argument and panics for a code below 100 or above 999.
\<close>

datatype wcall = WriteHeaderCall int | WriteCall bytes

record conn =
  hdr :: header
  calls :: "wcall list"

definition informational :: "int \<Rightarrow> bool" where
  "informational code = (100 \<le> code \<and> code \<le> 199 \<and> code \<noteq> 101)"

fun wire_status :: "wcall list \<Rightarrow> int option" where
  "wire_status [] = None"
| "wire_status (WriteHeaderCall c # cs) = (if informational c then wire_status cs else Some c)"
| "wire_status (WriteCall b # cs) = Some 200"

definition wroteHeader :: "conn \<Rightarrow> bool" where
  "wroteHeader c = (wire_status (calls c) \<noteq> None)"

definition checkWriteHeaderCode :: "int \<Rightarrow> outcome" where
  "checkWriteHeaderCode code = (if code < 100 \<or> code > 999 then Panicked else Returned)"

definition conn_WriteHeader :: "int \<Rightarrow> conn \<Rightarrow> outcome \<times> conn" where
  "conn_WriteHeader code c =
     (if wroteHeader c then (Returned, c\<lparr>calls := calls c @ [WriteHeaderCall code]\<rparr>)
      else if checkWriteHeaderCode code = Panicked then (Panicked, c)
      else (Returned, c\<lparr>calls := calls c @ [WriteHeaderCall code]\<rparr>))"

definition conn_Write :: "bytes \<Rightarrow> conn \<Rightarrow> conn" where
  "conn_Write p c = c\<lparr>calls := calls c @ [WriteCall p]\<rparr>"

text \<open>
  \<open>CacheResponseWriter\<close> embeds an \<open>http.ResponseWriter\<close> and adds a body buffer and a
  status field; \<open>NewCacheResponseWriter\<close> leaves the status at Go's zero value. Its
  \<open>Write\<close> copies the bytes into the buffer and forwards them, its \<open>WriteHeader\<close>
  records the status and then forwards it, and \<open>Header()\<close> is the embedded writer's.
\<close>

datatype writer =
  Conn conn
| CacheResponseWriter writer bytes int

definition NewCacheResponseWriter :: "writer \<Rightarrow> writer" where
  "NewCacheResponseWriter w = CacheResponseWriter w [] 0"

fun w_Header :: "writer \<Rightarrow> header" where
  "w_Header (Conn c) = hdr c"
| "w_Header (CacheResponseWriter u b st) = w_Header u"

fun w_Header_upd :: "(header \<Rightarrow> header) \<Rightarrow> writer \<Rightarrow> writer" where
  "w_Header_upd f (Conn c) = Conn (c\<lparr>hdr := f (hdr c)\<rparr>)"
| "w_Header_upd f (CacheResponseWriter u b st) = CacheResponseWriter (w_Header_upd f u) b st"

fun w_WriteHeader :: "int \<Rightarrow> writer \<Rightarrow> outcome \<times> writer" where
  "w_WriteHeader code (Conn c) = (let (oc, c') = conn_WriteHeader code c in (oc, Conn c'))"
| "w_WriteHeader code (CacheResponseWriter u b st) =
     (let (oc, u') = w_WriteHeader code u in (oc, CacheResponseWriter u' b code))"

fun w_Write :: "bytes \<Rightarrow> writer \<Rightarrow> writer" where
  "w_Write p (Conn c) = Conn (conn_Write p c)"
| "w_Write p (CacheResponseWriter u b st) = CacheResponseWriter (w_Write p u) (b @ p) st"

fun cw_status :: "writer \<Rightarrow> int" where
  "cw_status (CacheResponseWriter u b st) = st"
| "cw_status (Conn c) = 0"

fun cw_body :: "writer \<Rightarrow> bytes" where
  "cw_body (CacheResponseWriter u b st) = b"
| "cw_body (Conn c) = []"

fun cw_ResponseWriter :: "writer \<Rightarrow> writer" where
  "cw_ResponseWriter (CacheResponseWriter u b st) = u"
| "cw_ResponseWriter (Conn c) = Conn c"

text \<open>The connection at the bottom of a stack of wrappers.\<close>

fun conn_of :: "writer \<Rightarrow> conn" where
  "conn_of (Conn c) = c"
| "conn_of (CacheResponseWriter u b st) = conn_of u"

subsection \<open>Circuit breaker and rate limiter objects\<close>

text \<open>
  Instants and durations are integer nanoseconds; instant 0 is the zero \<open>time.Time\<close>.
  \<open>time.Since\<close> and \<open>Time.Sub\<close> saturate at the bounds of a 64-bit \<open>Duration\<close>.
\<close>

definition maxDuration :: int where
  "maxDuration = 2 ^ 63 - 1"

definition minDuration :: int where
  "minDuration = - (2 ^ 63)"

definition time_Sub :: "int \<Rightarrow> int \<Rightarrow> int" where
  "time_Sub t u = max minDuration (min maxDuration (t - u))"

definition time_Millisecond :: int where
  "time_Millisecond = 1000000"

definition time_Second :: int where
  "time_Second = 1000000000"

definition time_Minute :: int where
  "time_Minute = 60 * time_Second"

record CircuitBreaker =
  failureThreshold :: int
  resetTimeout :: int
  failures :: int
  lastFailure :: int

definition NewCircuitBreaker :: "int \<Rightarrow> int \<Rightarrow> CircuitBreaker" where
  "NewCircuitBreaker threshold timeout =
     \<lparr>failureThreshold = threshold, resetTimeout = timeout, failures = 0, lastFailure = 0\<rparr>"

text \<open>
  \<open>isOpen\<close> reads the clock and may clear the counter, so it takes the instant of the
  call and returns the breaker as it leaves it.
\<close>

definition isOpen :: "CircuitBreaker \<Rightarrow> int \<Rightarrow> bool \<times> CircuitBreaker" where
  "isOpen b t =
     (if failures b \<ge> failureThreshold b then
        (if time_Sub t (lastFailure b) > resetTimeout b
         then (False, b\<lparr>failures := 0\<rparr>)
         else (True, b))
      else (False, b))"

text \<open>
  The limiter of \<open>golang.org/x/time/rate\<close>, which the repository imports, after the
  library's \<open>reserveN\<close> with one token and no waiting allowed. A \<open>Limit\<close> is a number of
  tokens per second or the distinguished \<open>rate.Inf\<close>. An infinite limit grants always; a zero
  limit grants while the burst, which it counts down, is positive; otherwise the tokens
  are advanced to the instant of the call, capped at the burst, one is taken, and the
  request is granted when the time to wait for a missing part of a token, truncated to
  whole nanoseconds, is zero. A refused call leaves the limiter as it was. Token counts
  are exact reals where the library computes in \<open>float64\<close>; on whole numbers of tokens up
  to \<open>2 ^ 53\<close> with no time elapsed the two agree.
\<close>

datatype Limit = rate_Inf | PerSecond real

record Limiter =
  limit :: Limit
  burst :: int
  tokens :: real
  last_t :: int







text \<open>
  The registry maps a key to a pointer to its limiter. Limiters live in a heap, a list
  indexed by address; a new limiter gets the next address. \<open>getLimiter\<close> is the only place
  that allocates a limiter or writes to the map, and \<open>Allow\<close> on a pointer changes the
  limiter at that address. Every pointer the registry holds is an address of the heap.
\<close>

type_synonym limiter_heap = "Limiter list"

record RateLimiter =
  limiters :: "string \<rightharpoonup> nat"

definition NewRateLimiter :: RateLimiter where
  "NewRateLimiter = \<lparr>limiters = Map.empty\<rparr>"




subsection \<open>The process state\<close>

text \<open>
  One state holds what the handlers share: the clock, the circuit breaker and the
  rate-limiter registry the middleware closes over, the heap of limiters, the Redis server
  (value and expiry in milliseconds per key, and whether it can be reached), the lines printed to
  standard output, and the names of the handlers entered, which test doubles append to.
  The stored values are of a type \<open>'b\<close> chosen by the serializer.
\<close>

record 'b world =
  now :: int
  breaker :: CircuitBreaker
  registry :: RateLimiter
  limiter_objs :: limiter_heap
  redis :: "string \<rightharpoonup> ('b \<times> int option)"
  redis_up :: bool
  stdout :: "string list"
  entered :: "string list"

type_synonym 'b handler = "writer \<Rightarrow> request \<Rightarrow> 'b world \<Rightarrow> outcome \<times> writer \<times> 'b world"
type_synonym 'b Middleware = "'b handler \<Rightarrow> 'b handler"

section \<open>Package middleware\<close>

subsection \<open>Error responses\<close>

text \<open>
  \<open>respondWithError\<close> marshals a \<open>Response\<close> whose \<open>Data\<close> is nil and therefore omitted.
  \<open>json.Marshal\<close> belongs to the standard library and is an argument here. When
  \<open>WriteHeader\<close> panics the body is not written.
\<close>

record Response =
  Response_Status :: int
  Response_Message :: string
  Response_Error :: string

type_synonym marshal = "Response \<Rightarrow> bytes"

definition respondWithJSON :: "marshal \<Rightarrow> writer \<Rightarrow> int \<Rightarrow> Response \<Rightarrow> outcome \<times> writer" where
  "respondWithJSON json_Marshal w code payload =
     (let response = json_Marshal payload;
          w1 = w_Header_upd (\<lambda>h. h(''Content-Type'' \<mapsto> [''application/json''])) w;
          (oc, w2) = w_WriteHeader code w1
      in if oc = Panicked then (Panicked, w2) else (Returned, w_Write response w2))"

definition respondWithError :: "marshal \<Rightarrow> writer \<Rightarrow> int \<Rightarrow> string \<Rightarrow> outcome \<times> writer" where
  "respondWithError json_Marshal w code message =
     respondWithJSON json_Marshal w code
       \<lparr>Response_Status = code, Response_Message = ''error'', Response_Error = message\<rparr>"


definition StatusServiceUnavailable :: int where
  "StatusServiceUnavailable = 503"

definition StatusOK :: int where
  "StatusOK = 200"

subsection \<open>Chain\<close>

text \<open>
  \<open>Chain\<close> wraps the final handler from the last middleware down to the first, on each
  request, and then calls the result. The loop counts \<open>i\<close> from \<open>len - 1\<close> down to 0, so
  every index it reads lies within the list.
\<close>

function chain_loop :: "'b Middleware list \<Rightarrow> int \<Rightarrow> 'b handler \<Rightarrow> 'b handler" where
  "chain_loop middlewares i last_h =
     (if i \<ge> 0
      then chain_loop middlewares (i - 1) ((middlewares ! nat i) last_h)
      else last_h)"
  by pat_completeness auto
termination
  by (relation "measure (\<lambda>(ms, i, h). nat (i + 1))") auto

declare chain_loop.simps [simp del]

definition Chain :: "'b Middleware list \<Rightarrow> 'b Middleware" where
  "Chain middlewares final =
     (\<lambda>w r s. chain_loop middlewares (int (length middlewares) - 1) final w r s)"

subsection \<open>Rate limiting and circuit breaking\<close>


definition WithCircuitBreaker :: "marshal \<Rightarrow> 'b Middleware" where
  "WithCircuitBreaker json_Marshal next_h =
     (\<lambda>w r s.
        let (opn, b') = isOpen (breaker s) (now s);
            s' = s\<lparr>breaker := b'\<rparr>
        in if opn
           then (let (oc, w') = respondWithError json_Marshal w StatusServiceUnavailable
                                  ''Service temporarily unavailable''
                 in (oc, w', s'))
           else next_h w r s')"

section \<open>Package cache\<close>

text \<open>
  \<open>CacheConfig.Strategy\<close> is an interface value of which the code inspects the dynamic type
  only: \<open>WithCache\<close> switches on whether it is a \<open>*WriteThrough\<close>.
\<close>

datatype StrategyType = WriteThroughType | OtherType

record CacheConfig =
  TTL :: int
  KeyPrefix :: string
  IgnoreParams :: "string list"
  ExcludePaths :: "string list"
  Strategy :: StrategyType
  InvalidateOn :: "string list"

record CachedResponse =
  Status :: int
  Headers :: header
  Body :: bytes

text \<open>
  The \<open>Serializer\<close> interface; either method can fail. \<open>NewRedisCache\<close> installs the
  MessagePack serializer, a library the repository imports, so it is taken as an argument.
\<close>

record 'b Serializer =
  Marshal :: "CachedResponse \<Rightarrow> 'b option"
  Unmarshal :: "'b \<Rightarrow> CachedResponse option"

record 'b RedisCache =
  config :: CacheConfig
  serializer :: "'b Serializer"

definition NewRedisCache :: "'b Serializer \<Rightarrow> CacheConfig \<Rightarrow> 'b RedisCache" where
  "NewRedisCache msgpack cfg =
     \<lparr>config = (if TTL cfg = 0 then cfg\<lparr>TTL := 15 * time_Minute\<rparr> else cfg),
      serializer = msgpack\<rparr>"

subsection \<open>The query values of \<open>net/url\<close>\<close>

text \<open>
  \<open>url.Values\<close> maps a name to its values in order of appearance. The pair list of the
  query string represents it: the values of a name are the second components of its
  pairs, \<open>Del\<close> removes the pairs of a name, and \<open>Encode\<close> writes the names in sorted
  order, each with its values in their order, every name and value escaped.
\<close>

type_synonym Values = "(string \<times> string) list"

definition Values_Get :: "Values \<Rightarrow> string \<Rightarrow> string list" where
  "Values_Get v k = map snd (filter (\<lambda>p. fst p = k) v)"

definition Values_Del :: "Values \<Rightarrow> string \<Rightarrow> Values" where
  "Values_Del v k = filter (\<lambda>p. fst p \<noteq> k) v"

definition Values_keys :: "Values \<Rightarrow> string list" where
  "Values_keys v = sort (remdups (map fst v))"

definition upperhex :: "nat \<Rightarrow> char" where
  "upperhex d = ''0123456789ABCDEF'' ! d"

definition shouldEscape :: "char \<Rightarrow> bool" where
  "shouldEscape c =
     (let n = (of_char c :: nat)
      in \<not> ((97 \<le> n \<and> n \<le> 122) \<or> (65 \<le> n \<and> n \<le> 90) \<or> (48 \<le> n \<and> n \<le> 57)
             \<or> c \<in> set ''-_.~''))"

definition escape_char :: "char \<Rightarrow> string" where
  "escape_char c =
     (if \<not> shouldEscape c then [c]
      else if c = CHR '' '' then ''+''
      else [CHR ''%'', upperhex ((of_char c :: nat) div 16), upperhex ((of_char c :: nat) mod 16)])"

definition QueryEscape :: "string \<Rightarrow> string" where
  "QueryEscape s = concat (map escape_char s)"

fun join_amp :: "string list \<Rightarrow> string" where
  "join_amp [] = []"
| "join_amp [x] = x"
| "join_amp (x # y # zs) = x @ ''&'' @ join_amp (y # zs)"

definition Values_Encode :: "Values \<Rightarrow> string" where
  "Values_Encode v =
     join_amp (concat (map (\<lambda>k. map (\<lambda>x. QueryEscape k @ ''='' @ QueryEscape x) (Values_Get v k))
                           (Values_keys v)))"

subsection \<open>Keys and cacheability\<close>

text \<open>
  \<open>GetKey\<close> deletes the ignored names from a copy of the query values, formats prefix,
  method, path and encoded query with colons between, and replaces a key longer than 200
  bytes by the prefix and the hexadecimal SHA-256 of the key. The digest is a function
  of the standard library and is an argument here.
\<close>

definition GetKey :: "(string \<Rightarrow> string) \<Rightarrow> 'b RedisCache \<Rightarrow> request \<Rightarrow> string" where
  "GetKey sha256_hex rc r =
     (let query = foldl Values_Del (URL_Query r) (IgnoreParams (config rc));
          key = KeyPrefix (config rc) @ '':'' @ Method r @ '':'' @ URL_Path r @ '':'' @
                Values_Encode query
      in if length key > 200
         then KeyPrefix (config rc) @ '':hash:'' @ sha256_hex key
         else key)"

definition HasPrefix :: "string \<Rightarrow> string \<Rightarrow> bool" where
  "HasPrefix s p = (length s \<ge> length p \<and> take (length p) s = p)"

definition Header_Get :: "header \<Rightarrow> string \<Rightarrow> string" where
  "Header_Get h k = (case h k of None \<Rightarrow> [] | Some [] \<Rightarrow> [] | Some (x # xs) \<Rightarrow> x)"

fun excluded :: "string list \<Rightarrow> string \<Rightarrow> bool" where
  "excluded [] path = False"
| "excluded (p # ps) path = (if HasPrefix path p then True else excluded ps path)"

definition MethodGet :: string where
  "MethodGet = ''GET''"

definition ShouldCache :: "'b RedisCache \<Rightarrow> request \<Rightarrow> bool" where
  "ShouldCache rc r =
     (if Method r \<noteq> MethodGet then False
      else if excluded (ExcludePaths (config rc)) (URL_Path r) then False
      else if Header_Get (Header r) ''Cache-Control'' = ''no-cache'' then False
      else True)"

subsection \<open>The Redis client\<close>

text \<open>
  \<open>Set\<close> of go-redis sends a positive expiration as whole milliseconds (\<open>PX\<close>) when it is
  below a second or not a whole number of seconds, and as whole seconds (\<open>EX\<close>) otherwise;
  a positive expiration below the unit is sent as 1. The expiration \<open>KeepTTL\<close>, which is
  -1, keeps the expiry the key has; any other expiration that is not positive stores the
  key without an expiry. The server keeps the expiry of a key as an instant of its clock
  in milliseconds, and a key is expired once that clock has passed the instant. \<open>Get\<close>
  answers \<open>redis.Nil\<close> for a key that is absent or expired. Each fails when the server
  cannot be reached.
\<close>

datatype error = redis_Nil | redis_unreachable | marshal_failed | unmarshal_failed

definition KeepTTL :: int where
  "KeepTTL = - 1"

definition usePrecise :: "int \<Rightarrow> bool" where
  "usePrecise dur = (dur < time_Second \<or> dur mod time_Second \<noteq> 0)"

definition formatMs :: "int \<Rightarrow> int" where
  "formatMs dur = (if dur > 0 \<and> dur < time_Millisecond then 1 else dur div time_Millisecond)"

definition formatSec :: "int \<Rightarrow> int" where
  "formatSec dur = (if dur > 0 \<and> dur < time_Second then 1 else dur div time_Second)"

definition mstime :: "int \<Rightarrow> int" where
  "mstime t = t div time_Millisecond"

definition expired :: "int option \<Rightarrow> int \<Rightarrow> bool" where
  "expired expiry t = (case expiry of None \<Rightarrow> False | Some e \<Rightarrow> mstime t > e)"

definition kept_expiry :: "('b \<times> int option) option \<Rightarrow> int \<Rightarrow> int option" where
  "kept_expiry old t =
     (case old of
        None \<Rightarrow> None
      | Some (data, expiry) \<Rightarrow> if expired expiry t then None else expiry)"

definition set_expiry :: "int \<Rightarrow> int \<Rightarrow> ('b \<times> int option) option \<Rightarrow> int option" where
  "set_expiry expiration t old =
     (if expiration > 0 then
        (if usePrecise expiration
         then Some (mstime t + formatMs expiration)
         else Some (mstime t + formatSec expiration * 1000))
      else if expiration = KeepTTL then kept_expiry old t
      else None)"

definition client_Set :: "string \<Rightarrow> 'b \<Rightarrow> int \<Rightarrow> 'b world \<Rightarrow> error option \<times> 'b world" where
  "client_Set key data expiration s =
     (if redis_up s
      then (None, s\<lparr>redis := (redis s)(key \<mapsto> (data, set_expiry expiration (now s) (redis s key)))\<rparr>)
      else (Some redis_unreachable, s))"

definition client_Get :: "string \<Rightarrow> 'b world \<Rightarrow> error + 'b" where
  "client_Get key s =
     (if \<not> redis_up s then Inl redis_unreachable
      else case redis s key of
             None \<Rightarrow> Inl redis_Nil
           | Some (data, expiry) \<Rightarrow> if expired expiry (now s) then Inl redis_Nil else Inr data)"

definition Store :: "'b RedisCache \<Rightarrow> string \<Rightarrow> CachedResponse \<Rightarrow> 'b world \<Rightarrow> error option \<times> 'b world" where
  "Store rc key v s =
     (case Marshal (serializer rc) v of
        None \<Rightarrow> (Some marshal_failed, s)
      | Some data \<Rightarrow> client_Set key data (TTL (config rc)) s)"

text \<open>
  \<open>Fetch\<close> returns \<open>(nil, nil)\<close> on \<open>redis.Nil\<close>, an error on any other failure and the
  decoded response otherwise: \<open>Inr None\<close>, \<open>Inl e\<close> and \<open>Inr (Some response)\<close>.
\<close>

definition Fetch :: "'b RedisCache \<Rightarrow> string \<Rightarrow> 'b world \<Rightarrow> error + CachedResponse option" where
  "Fetch rc key s =
     (case client_Get key s of
        Inl e \<Rightarrow> (if e = redis_Nil then Inr None else Inl e)
      | Inr data \<Rightarrow>
          (case Unmarshal (serializer rc) data of
             None \<Rightarrow> Inl unmarshal_failed
           | Some response \<Rightarrow> Inr (Some response)))"

subsection \<open>Cache-Aside and Write-Through\<close>

text \<open>
  On a hit \<open>CacheAside.Apply\<close> lays the stored headers over the header map, calls
  \<open>WriteHeader\<close> with the stored status and then \<open>Write\<close> with the stored body; when
  \<open>WriteHeader\<close> panics the body is not written. On a miss it runs the next handler on a
  capturing writer; when that panics, nothing is stored. Otherwise it stores what the
  wrapper captured and prints a line with the error of a failed \<open>Store\<close>; the texts of
  the library's errors are stand-ins. \<open>WriteThrough.Apply\<close> discards what \<open>Store\<close> returns.
  After the next handler has run on the capturing writer, the caller's writer is the one
  embedded in it.
\<close>

definition error_text :: "error \<Rightarrow> string" where
  "error_text e =
     (case e of
        redis_Nil \<Rightarrow> ''redis: nil''
      | redis_unreachable \<Rightarrow> ''redis: connection refused''
      | marshal_failed \<Rightarrow> ''failed to marshal cache data''
      | unmarshal_failed \<Rightarrow> ''failed to unmarshal cache data'')"

definition replay :: "CachedResponse \<Rightarrow> writer \<Rightarrow> outcome \<times> writer" where
  "replay response w =
     (let w1 = w_Header_upd (\<lambda>h. h ++ Headers response) w;
          (oc, w2) = w_WriteHeader (Status response) w1
      in if oc = Panicked then (Panicked, w2) else (Returned, w_Write (Body response) w2))"

definition CacheAside_Apply :: "(string \<Rightarrow> string) \<Rightarrow> 'b RedisCache \<Rightarrow> 'b Middleware" where
  "CacheAside_Apply sha256_hex cache next_h =
     (\<lambda>w r s.
        if \<not> ShouldCache cache r then next_h w r s
        else
          let key = GetKey sha256_hex cache r
          in case Fetch cache key s of
               Inr (Some response) \<Rightarrow> (let (oc, w') = replay response w in (oc, w', s))
             | _ \<Rightarrow>
                 (let cw = NewCacheResponseWriter w;
                      (oc, cw', s1) = next_h cw r s;
                      w' = cw_ResponseWriter cw'
                  in if oc = Panicked then (Panicked, w', s1)
                     else
                       (let response = \<lparr>Status = cw_status cw', Headers = w_Header w', Body = cw_body cw'\<rparr>;
                            (err, s2) = Store cache key response s1
                        in case err of
                             Some e \<Rightarrow> (Returned, w', s2\<lparr>stdout := stdout s2 @ [''Cache storage error: '' @ error_text e]\<rparr>)
                           | None \<Rightarrow> (Returned, w', s2))))"

definition WriteThrough_Apply :: "(string \<Rightarrow> string) \<Rightarrow> 'b RedisCache \<Rightarrow> 'b Middleware" where
  "WriteThrough_Apply sha256_hex cache next_h =
     (\<lambda>w r s.
        if Method r \<noteq> ''GET'' then
          (let key = GetKey sha256_hex cache r;
               cw = NewCacheResponseWriter w;
               (oc, cw', s1) = next_h cw r s;
               w' = cw_ResponseWriter cw'
           in if oc = Panicked then (Panicked, w', s1)
              else if cw_status cw' = StatusOK
              then (let response = \<lparr>Status = cw_status cw', Headers = w_Header w', Body = cw_body cw'\<rparr>;
                        (err, s2) = Store cache key response s1
                    in (Returned, w', s2))
              else (Returned, w', s1))
        else CacheAside_Apply sha256_hex cache next_h w r s)"

definition WithCache :: "(string \<Rightarrow> string) \<Rightarrow> 'b Serializer \<Rightarrow> CacheConfig \<Rightarrow> 'b Middleware" where
  "WithCache sha256_hex msgpack cfg next_h =
     (let cache = NewRedisCache msgpack cfg
      in case Strategy cfg of
           WriteThroughType \<Rightarrow> WriteThrough_Apply sha256_hex cache next_h
         | OtherType \<Rightarrow> CacheAside_Apply sha256_hex cache next_h)"

section \<open>Test doubles\<close>

text \<open>
  An origin handler is given by the calls it makes on its writer for a request: changes
  of the header map, \<open>WriteHeader\<close> and \<open>Write\<close>. It records its name on entry and stops at
  a call that panics.
\<close>

datatype wop = HeaderOp "header \<Rightarrow> header" | WriteHeaderOp int | WriteOp bytes

fun run_op :: "writer \<Rightarrow> wop \<Rightarrow> outcome \<times> writer" where
  "run_op w (HeaderOp f) = (Returned, w_Header_upd f w)"
| "run_op w (WriteHeaderOp code) = w_WriteHeader code w"
| "run_op w (WriteOp p) = (Returned, w_Write p w)"

fun run_script :: "wop list \<Rightarrow> writer \<Rightarrow> outcome \<times> writer" where
  "run_script [] w = (Returned, w)"
| "run_script (x # xs) w =
     (let (oc, w') = run_op w x
      in if oc = Panicked then (Panicked, w') else run_script xs w')"

definition origin :: "string \<Rightarrow> (request \<Rightarrow> wop list) \<Rightarrow> 'b handler" where
  "origin name script =
     (\<lambda>w r s. let (oc, w') = run_script (script r) w
              in (oc, w', s\<lparr>entered := entered s @ [name]\<rparr>))"

text \<open>
  For a script that returns: the status its calls leave in a capturing writer, the bytes
  they write, and the calls they make on the connection below the wrappers.
\<close>

fun script_status :: "int \<Rightarrow> wop list \<Rightarrow> int" where
  "script_status st [] = st"
| "script_status st (HeaderOp f # xs) = script_status st xs"
| "script_status st (WriteHeaderOp code # xs) = script_status code xs"
| "script_status st (WriteOp p # xs) = script_status st xs"

fun script_body :: "wop list \<Rightarrow> bytes" where
  "script_body [] = []"
| "script_body (HeaderOp f # xs) = script_body xs"
| "script_body (WriteHeaderOp code # xs) = script_body xs"
| "script_body (WriteOp p # xs) = p @ script_body xs"


text \<open>
  The entry a capturing writer around \<open>w\<close> holds once an origin has run its script for
  \<open>r\<close> and returned: the last status passed to \<open>WriteHeader\<close>, or the zero value when it was
  never called, the header map of \<open>w\<close>, and the bytes written.
\<close>

definition miss_entry :: "request \<Rightarrow> (request \<Rightarrow> wop list) \<Rightarrow> writer \<Rightarrow> CachedResponse" where
  "miss_entry r script w =
     \<lparr>Status = script_status 0 (script r), Headers = w_Header (snd (run_script (script r) w)),
      Body = script_body (script r)\<rparr>"

text \<open>
  A fresh connection per request; \<open>serve\<close> runs a handler on requests one after another.
  The server recovers a handler's panic, so the next request is served all the same.
\<close>

definition fresh :: writer where
  "fresh = Conn \<lparr>hdr = Map.empty, calls = []\<rparr>"

fun serve :: "'b handler \<Rightarrow> request list \<Rightarrow> 'b world \<Rightarrow> (outcome \<times> writer) list \<times> 'b world" where
  "serve h [] s = ([], s)"
| "serve h (r # rs) s =
     (let (oc, w, s1) = h fresh r s;
          (ws, s2) = serve h rs s1
      in ((oc, w) # ws, s2))"

text \<open>
  An interceptor that records its name and then either forwards to the rest of the
  chain or answers with an error of its own.
\<close>

record probe =
  probe_name :: string
  probe_pass :: "request \<Rightarrow> bool"
  probe_code :: int

definition interceptor :: "marshal \<Rightarrow> probe \<Rightarrow> 'b Middleware" where
  "interceptor json_Marshal p next_h =
     (\<lambda>w r s.
        let s1 = s\<lparr>entered := entered s @ [probe_name p]\<rparr>
        in if probe_pass p r then next_h w r s1
           else (let (oc, w') = respondWithError json_Marshal w (probe_code p) ''rejected''
                 in (oc, w', s1)))"

subsection \<open>Sample configuration\<close>

definition cfg0 :: CacheConfig where
  "cfg0 = \<lparr>TTL = 60 * time_Second, KeyPrefix = ''api'', IgnoreParams = [''_ts''],
            ExcludePaths = [''/admin''], Strategy = WriteThroughType, InvalidateOn = []\<rparr>"

definition idser :: "CachedResponse Serializer" where
  "idser = \<lparr>Marshal = Some, Unmarshal = Some\<rparr>"

text \<open>A stand-in for the digest, for keys that stay within 200 bytes.\<close>

definition no_digest :: "string \<Rightarrow> string" where
  "no_digest key = []"

text \<open>
  A stand-in for \<open>json.Marshal\<close> on a \<open>Response\<close> whose texts hold nothing that JSON escapes.
\<close>

definition digit_char :: "nat \<Rightarrow> char" where
  "digit_char d = ''0123456789'' ! d"

fun show_nat :: "nat \<Rightarrow> string" where
  "show_nat n = (if n < 10 then [digit_char n] else show_nat (n div 10) @ [digit_char (n mod 10)])"

definition show_int :: "int \<Rightarrow> string" where
  "show_int i = (if i < 0 then ''-'' @ show_nat (nat (- i)) else show_nat (nat i))"

definition json_plain :: marshal where
  \<open>json_plain p =
     ''{"status":'' @ show_int (Response_Status p) @ '',"message":"'' @ Response_Message p @ ''"'' @
     (if Response_Error p = [] then [] else '',"error":"'' @ Response_Error p @ ''"'') @ ''}''\<close>

definition rc0 :: "CachedResponse RedisCache" where
  "rc0 = NewRedisCache idser cfg0"

definition req0 :: request where
  "req0 = \<lparr>Method = ''GET'', URL_Path = ''/contacts/7'', URL_Query = [], Header = Map.empty,
            RemoteAddr = ''10.0.0.1:4000''\<rparr>"

definition world0 :: "CachedResponse world" where
  "world0 = \<lparr>now = 1000, breaker = NewCircuitBreaker 2 (30 * time_Second),
              registry = NewRateLimiter, limiter_objs = [], redis = Map.empty, redis_up = True,
              stdout = [], entered = []\<rparr>"

subsection \<open>Sample handlers and interceptors\<close>

definition failing_script :: "request \<Rightarrow> wop list" where
  "failing_script r = [WriteHeaderOp 500, WriteOp ''upstream failed'']"

definition ok_script :: "request \<Rightarrow> wop list" where
  "ok_script r = [WriteOp ''ok'']"

definition probe_auth :: probe where
  "probe_auth = \<lparr>probe_name = ''auth'', probe_pass = (\<lambda>r. True), probe_code = 401\<rparr>"

definition probe_quota :: probe where
  "probe_quota = \<lparr>probe_name = ''quota'', probe_pass = (\<lambda>r. Method r \<noteq> ''GET''), probe_code = 429\<rparr>"

definition probe_audit :: probe where
  "probe_audit = \<lparr>probe_name = ''audit'', probe_pass = (\<lambda>r. True), probe_code = 500\<rparr>"

definition req_a :: request where
  "req_a = \<lparr>Method = ''GET'', URL_Path = ''/contacts'', URL_Query = [(''tag'', ''a''), (''tag'', ''b'')],
            Header = Map.empty, RemoteAddr = ''10.0.0.1:4000''\<rparr>"

definition req_b :: request where
  "req_b = \<lparr>Method = ''GET'', URL_Path = ''/contacts'', URL_Query = [(''tag'', ''b''), (''tag'', ''a'')],
            Header = Map.empty, RemoteAddr = ''10.0.0.1:4000''\<rparr>"

definition req_c :: request where
  "req_c = \<lparr>Method = ''GET'', URL_Path = ''/contacts'',
            URL_Query = [(''page'', ''2''), (''_ts'', ''1700000000''), (''city'', ''New York'')],
            Header = Map.empty, RemoteAddr = ''10.0.0.1:4000''\<rparr>"

definition req_d :: request where
  "req_d = \<lparr>Method = ''GET'', URL_Path = ''/contacts'',
            URL_Query = [(''_ts'', ''1700000999''), (''city'', ''New York''), (''page'', ''2'')],
            Header = Map.empty, RemoteAddr = ''10.0.0.9:5111''\<rparr>"

definition put0 :: request where
  "put0 = \<lparr>Method = ''PUT'', URL_Path = ''/contacts/7'', URL_Query = [], Header = Map.empty,
            RemoteAddr = ''10.0.0.1:4000''\<rparr>"

definition update_script :: "request \<Rightarrow> wop list" where
  "update_script r = [WriteHeaderOp 200, WriteOp ''name=new'']"

definition entry_zero :: CachedResponse where
  "entry_zero = \<lparr>Status = 0, Headers = Map.empty, Body = ''ok''\<rparr>"

definition world_down :: "CachedResponse world" where
  "world_down = world0\<lparr>redis_up := False\<rparr>"

section \<open>Properties\<close>

subsection \<open>Circuit breaker state\<close>

text \<open>
  Claim C7. In every breaker state and at every instant, \<open>isOpen\<close> reports open exactly
  when the failure counter has reached the threshold and the time since the last recorded
  failure does not exceed the reset timeout. When the counter has reached the threshold
  and the timeout has been exceeded, the call clears the counter and reports closed, and
  so does every later call on the breaker it leaves.
\<close>

theorem isOpen_iff:
  "fst (isOpen b t) = (failures b \<ge> failureThreshold b \<and> \<not> time_Sub t (lastFailure b) > resetTimeout b)
   \<and> (failures b \<ge> failureThreshold b \<and> time_Sub t (lastFailure b) > resetTimeout b \<longrightarrow>
        isOpen b t = (False, b\<lparr>failures := 0\<rparr>)
        \<and> (\<forall>t' \<ge> t. \<not> fst (isOpen (snd (isOpen b t)) t')))"
proof -
  have blocks: "fst (isOpen b t) =
      (failures b \<ge> failureThreshold b \<and> \<not> time_Sub t (lastFailure b) > resetTimeout b)"
    by (simp add: isOpen_def)
  have after: "\<forall>t' \<ge> t. \<not> fst (isOpen (snd (isOpen b t)) t')"
    if elapsed: "time_Sub t (lastFailure b) > resetTimeout b" and "failures b \<ge> failureThreshold b"
  proof (intro allI impI)
    fix t'
    assume "t \<le> t'"
    then have "time_Sub t (lastFailure b) \<le> time_Sub t' (lastFailure b)"
      by (simp add: time_Sub_def)
    with elapsed have "time_Sub t' (lastFailure b) > resetTimeout b"
      by simp
    with that show "\<not> fst (isOpen (snd (isOpen b t)) t')"
      by (simp add: isOpen_def)
  qed
  have clears: "isOpen b t = (False, b\<lparr>failures := 0\<rparr>)"
    if "time_Sub t (lastFailure b) > resetTimeout b" and "failures b \<ge> failureThreshold b"
    using that by (simp add: isOpen_def)
  from blocks after clears show ?thesis
    by blast
qed

theorem isOpen_iff_witness:
  "fst (isOpen \<lparr>failureThreshold = 3, resetTimeout = 30, failures = 3, lastFailure = 100\<rparr> 120)
   \<and> isOpen \<lparr>failureThreshold = 3, resetTimeout = 30, failures = 3, lastFailure = 100\<rparr> 131
       = (False, \<lparr>failureThreshold = 3, resetTimeout = 30, failures = 0, lastFailure = 100\<rparr>)
   \<and> \<not> fst (isOpen (snd (isOpen \<lparr>failureThreshold = 3, resetTimeout = 30, failures = 3, lastFailure = 100\<rparr> 131)) 140)"
proof -
  let ?b = "\<lparr>failureThreshold = 3, resetTimeout = 30, failures = 3, lastFailure = 100\<rparr>"
  have still: "failures ?b \<ge> failureThreshold ?b \<and> \<not> time_Sub 120 (lastFailure ?b) > resetTimeout ?b"
    by (simp add: time_Sub_def minDuration_def maxDuration_def)
  have over: "failures ?b \<ge> failureThreshold ?b \<and> time_Sub 131 (lastFailure ?b) > resetTimeout ?b"
    by (simp add: time_Sub_def minDuration_def maxDuration_def)
  from isOpen_iff [of ?b 120] still have a: "fst (isOpen ?b 120)"
    by blast
  from isOpen_iff [of ?b 131] over
  have b: "isOpen ?b 131 = (False, ?b\<lparr>failures := 0\<rparr>)"
    and c: "\<forall>t' \<ge> 131. \<not> fst (isOpen (snd (isOpen ?b 131)) t')"
    by blast+
  from c have "\<not> fst (isOpen (snd (isOpen ?b 131)) 140)"
    by simp
  with a b show ?thesis
    by simp
qed

subsection \<open>Cacheability\<close>

text \<open>
  Claim C4. \<open>ShouldCache\<close> is true only for the method GET; it is false for every request
  whose path has one of the configured exclusion prefixes, and false for every request
  whose \<open>Cache-Control\<close> header reads \<open>no-cache\<close>, whatever the other fields are.
\<close>

theorem ShouldCache_sound:
  "(ShouldCache rc r \<longrightarrow> Method r = ''GET'')
   \<and> ((\<exists>p \<in> set (ExcludePaths (config rc)). HasPrefix (URL_Path r) p) \<longrightarrow> \<not> ShouldCache rc r)
   \<and> (Header_Get (Header r) ''Cache-Control'' = ''no-cache'' \<longrightarrow> \<not> ShouldCache rc r)"
proof -
  have "excluded ps path = (\<exists>p \<in> set ps. HasPrefix path p)" for ps path
    by (induction ps) auto
  then show ?thesis
    by (simp add: ShouldCache_def MethodGet_def)
qed

theorem ShouldCache_sound_witness:
  "ShouldCache \<lparr>config = cfg0, serializer = idser\<rparr>
     \<lparr>Method = ''GET'', URL_Path = ''/contacts/7'', URL_Query = [], Header = Map.empty, RemoteAddr = ''10.0.0.1:4000''\<rparr>
   \<and> (\<exists>p \<in> set (ExcludePaths cfg0). HasPrefix ''/admin/users'' p)
   \<and> \<not> ShouldCache \<lparr>config = cfg0, serializer = idser\<rparr>
     \<lparr>Method = ''GET'', URL_Path = ''/admin/users'', URL_Query = [], Header = Map.empty, RemoteAddr = ''10.0.0.1:4000''\<rparr>
   \<and> \<not> ShouldCache \<lparr>config = cfg0, serializer = idser\<rparr>
     \<lparr>Method = ''GET'', URL_Path = ''/contacts/7'', URL_Query = [],
      Header = [''Cache-Control'' \<mapsto> [''no-cache'']], RemoteAddr = ''10.0.0.1:4000''\<rparr>"
proof -
  let ?rc = "\<lparr>config = cfg0, serializer = idser\<rparr>"
  let ?r0 = "\<lparr>Method = ''GET'', URL_Path = ''/contacts/7'', URL_Query = [], Header = Map.empty, RemoteAddr = ''10.0.0.1:4000''\<rparr>"
  let ?r1 = "\<lparr>Method = ''GET'', URL_Path = ''/admin/users'', URL_Query = [], Header = Map.empty, RemoteAddr = ''10.0.0.1:4000''\<rparr>"
  let ?r2 = "\<lparr>Method = ''GET'', URL_Path = ''/contacts/7'', URL_Query = [],
      Header = [''Cache-Control'' \<mapsto> [''no-cache'']], RemoteAddr = ''10.0.0.1:4000''\<rparr>"
  have yes: "ShouldCache ?rc ?r0"
    by (simp add: ShouldCache_def cfg0_def MethodGet_def HasPrefix_def Header_Get_def)
  have pre: "\<exists>p \<in> set (ExcludePaths (config ?rc)). HasPrefix (URL_Path ?r1) p"
    by (simp add: cfg0_def HasPrefix_def)
  have nc: "Header_Get (Header ?r2) ''Cache-Control'' = ''no-cache''"
    by (simp add: Header_Get_def)
  from ShouldCache_sound [of ?rc ?r0] yes have "Method ?r0 = ''GET''"
    by blast
  moreover from ShouldCache_sound [of ?rc ?r1] pre have "\<not> ShouldCache ?rc ?r1"
    by blast
  moreover from ShouldCache_sound [of ?rc ?r2] nc have "\<not> ShouldCache ?rc ?r2"
    by blast
  ultimately show ?thesis
    using yes pre by simp
qed

subsection \<open>Chain composition\<close>

lemma chain_loop_take:
  "i < int (length ms) \<Longrightarrow> chain_loop ms i h = foldr (\<lambda>m g. m g) (take (nat (i + 1)) ms) h"
proof (induction ms i h rule: chain_loop.induct)
  case (1 ms i h)
  show ?case
  proof (cases "i \<ge> 0")
    case False
    then show ?thesis by (simp add: chain_loop.simps [of ms i h])
  next
    case True
    with "1.prems" have lt: "nat i < length ms" by simp
    have tk: "take (nat (i + 1)) ms = take (nat i) ms @ [ms ! nat i]"
      using True lt by (simp add: nat_add_distrib take_Suc_conv_app_nth)
    have "chain_loop ms i h = chain_loop ms (i - 1) ((ms ! nat i) h)"
      using True by (simp add: chain_loop.simps [of ms i h])
    also have "\<dots> = foldr (\<lambda>m g. m g) (take (nat (i - 1 + 1)) ms) ((ms ! nat i) h)"
      using "1.IH" True lt "1.prems" by simp
    finally show ?thesis
      using tk by simp
  qed
qed

lemma Chain_foldr: "Chain ms final = foldr (\<lambda>m g. m g) ms final"
proof -
  have "chain_loop ms (int (length ms) - 1) final = foldr (\<lambda>m g. m g) (take (nat (int (length ms) - 1 + 1)) ms) final"
    by (rule chain_loop_take) simp
  then show ?thesis
    by (simp add: Chain_def)
qed

lemma foldr_interceptors_pass:
  "\<forall>p \<in> set ps. probe_pass p r \<Longrightarrow>
   foldr (\<lambda>m g. m g) (map (interceptor jm) ps) final w r s =
     final w r (s\<lparr>entered := entered s @ map probe_name ps\<rparr>)"
  by (induction ps arbitrary: s) (simp_all add: interceptor_def)

lemma foldr_interceptors_block:
  "\<forall>p \<in> set ps. probe_pass p r \<Longrightarrow> \<not> probe_pass q r \<Longrightarrow>
   foldr (\<lambda>m g. m g) (map (interceptor jm) (ps @ q # qs)) final w r s =
     (fst (respondWithError jm w (probe_code q) ''rejected''),
      snd (respondWithError jm w (probe_code q) ''rejected''),
      s\<lparr>entered := entered s @ map probe_name (ps @ [q])\<rparr>)"
  by (induction ps arbitrary: s) (simp_all add: interceptor_def case_prod_beta)

lemma respondWithError_valid:
  assumes "100 \<le> code" and "code \<le> 999"
  shows "respondWithError jm (Conn c) code msg =
     (Returned,
      Conn \<lparr>hdr = (hdr c)(''Content-Type'' \<mapsto> [''application/json'']),
            calls = calls c @
              [WriteHeaderCall code,
               WriteCall (jm \<lparr>Response_Status = code, Response_Message = ''error'', Response_Error = msg\<rparr>)]\<rparr>)"
  using assms
  by (simp add: respondWithError_def respondWithJSON_def conn_WriteHeader_def conn_Write_def
      checkWriteHeaderCode_def Let_def)

text \<open>
  Claim C8. For every list of middlewares and every final handler, \<open>Chain\<close> is the first
  middleware applied to the second applied to ... the last applied to the final handler.
  With interceptors that record their entry: when all of them forward, the final handler
  runs after exactly the names of the list, in list order, have been recorded; when one
  does not forward, the request ends with the response that interceptor wrote, the names
  recorded are those of the list up to and including it, each once, and neither a later
  interceptor nor the final handler runs.
\<close>

theorem Chain_order:
  "Chain ms final = foldr (\<lambda>m g. m g) ms final
   \<and> ((\<forall>p \<in> set ps. probe_pass p r) \<longrightarrow>
        Chain (map (interceptor jm) ps) final w r s =
          final w r (s\<lparr>entered := entered s @ map probe_name ps\<rparr>))
   \<and> ((\<forall>p \<in> set ps. probe_pass p r) \<and> \<not> probe_pass q r \<longrightarrow>
        Chain (map (interceptor jm) (ps @ q # qs)) final w r s =
          (fst (respondWithError jm w (probe_code q) ''rejected''),
           snd (respondWithError jm w (probe_code q) ''rejected''),
           s\<lparr>entered := entered s @ map probe_name (ps @ [q])\<rparr>))"
  using foldr_interceptors_pass [of ps r jm final w s]
    foldr_interceptors_block [of ps r q jm qs final w s]
  by (simp only: Chain_foldr) blast

theorem Chain_order_witness:
  "probe_pass probe_auth req0 \<and> probe_pass probe_audit req0
   \<and> \<not> probe_pass probe_quota req0
   \<and> entered (snd (snd (Chain (map (interceptor json_plain) [probe_auth, probe_audit])
        (origin ''contacts'' ok_script) fresh req0 world0)))
       = [''auth'', ''audit'', ''contacts'']
   \<and> Chain (map (interceptor json_plain) ([probe_auth, probe_audit] @ probe_quota # [probe_audit]))
        (origin ''contacts'' ok_script) fresh req0 world0
       = (Returned,
          Conn \<lparr>hdr = [''Content-Type'' \<mapsto> [''application/json'']],
                calls = [WriteHeaderCall 429,
                         WriteCall (json_plain \<lparr>Response_Status = 429, Response_Message = ''error'',
                                                Response_Error = ''rejected''\<rparr>)]\<rparr>,
          world0\<lparr>entered := [''auth'', ''audit'', ''quota'']\<rparr>)"
proof -
  have pass: "\<forall>p \<in> set [probe_auth, probe_audit]. probe_pass p req0"
    by (simp add: probe_auth_def probe_audit_def)
  have block: "\<not> probe_pass probe_quota req0"
    by (simp add: probe_quota_def req0_def)
  have e0: "entered world0 = []"
    by (simp add: world0_def)
  have rej: "respondWithError json_plain fresh (probe_code probe_quota) ''rejected'' =
      (Returned,
       Conn \<lparr>hdr = [''Content-Type'' \<mapsto> [''application/json'']],
             calls = [WriteHeaderCall 429,
                      WriteCall (json_plain \<lparr>Response_Status = 429, Response_Message = ''error'',
                                             Response_Error = ''rejected''\<rparr>)]\<rparr>)"
    by (simp add: fresh_def probe_quota_def respondWithError_valid)
  note inst = Chain_order [of "[]" "origin ''contacts'' ok_script" "[probe_auth, probe_audit]" req0
      json_plain fresh world0 probe_quota "[probe_audit]"]
  from inst pass have "Chain (map (interceptor json_plain) [probe_auth, probe_audit])
        (origin ''contacts'' ok_script) fresh req0 world0
      = origin ''contacts'' ok_script fresh req0
          (world0\<lparr>entered := entered world0 @ map probe_name [probe_auth, probe_audit]\<rparr>)"
    by blast
  then have one: "entered (snd (snd (Chain (map (interceptor json_plain) [probe_auth, probe_audit])
        (origin ''contacts'' ok_script) fresh req0 world0)))
       = [''auth'', ''audit'', ''contacts'']"
    by (simp add: origin_def e0 probe_auth_def probe_audit_def case_prod_beta)
  from inst pass block
  have "Chain (map (interceptor json_plain) ([probe_auth, probe_audit] @ probe_quota # [probe_audit]))
        (origin ''contacts'' ok_script) fresh req0 world0
       = (fst (respondWithError json_plain fresh (probe_code probe_quota) ''rejected''),
          snd (respondWithError json_plain fresh (probe_code probe_quota) ''rejected''),
          world0\<lparr>entered := entered world0 @ map probe_name ([probe_auth, probe_audit] @ [probe_quota])\<rparr>)"
    by blast
  then have "Chain (map (interceptor json_plain) ([probe_auth, probe_audit] @ probe_quota # [probe_audit]))
        (origin ''contacts'' ok_script) fresh req0 world0
       = (Returned,
          Conn \<lparr>hdr = [''Content-Type'' \<mapsto> [''application/json'']],
                calls = [WriteHeaderCall 429,
                         WriteCall (json_plain \<lparr>Response_Status = 429, Response_Message = ''error'',
                                                Response_Error = ''rejected''\<rparr>)]\<rparr>,
          world0\<lparr>entered := entered world0 @ map probe_name ([probe_auth, probe_audit] @ [probe_quota])\<rparr>)"
    by (simp only: rej fst_conv snd_conv)
  then have two: "Chain (map (interceptor json_plain) ([probe_auth, probe_audit] @ probe_quota # [probe_audit]))
        (origin ''contacts'' ok_script) fresh req0 world0
       = (Returned,
          Conn \<lparr>hdr = [''Content-Type'' \<mapsto> [''application/json'']],
                calls = [WriteHeaderCall 429,
                         WriteCall (json_plain \<lparr>Response_Status = 429, Response_Message = ''error'',
                                                Response_Error = ''rejected''\<rparr>)]\<rparr>,
          world0\<lparr>entered := [''auth'', ''audit'', ''quota'']\<rparr>)"
    by (simp add: e0 probe_auth_def probe_audit_def probe_quota_def)
  from pass block one two show ?thesis
    by simp
qed

subsection \<open>Rate limiting\<close>



















subsection \<open>Circuit breaking\<close>

lemma WithCircuitBreaker_below_threshold:
  "failures (breaker s) < failureThreshold (breaker s) \<Longrightarrow>
   WithCircuitBreaker jm next_h w r s = next_h w r s"
  by (simp add: WithCircuitBreaker_def isOpen_def)

lemma serve_below_threshold:
  assumes "failures (breaker s) < failureThreshold (breaker s)"
  shows "serve (WithCircuitBreaker jm (origin name script)) rs s =
     (map (\<lambda>r. run_script (script r) fresh) rs,
      s\<lparr>entered := entered s @ replicate (length rs) name\<rparr>)"
  using assms
proof (induction rs arbitrary: s)
  case Nil
  then show ?case by simp
next
  case (Cons r rs)
  let ?s1 = "s\<lparr>entered := entered s @ [name]\<rparr>"
  have step: "WithCircuitBreaker jm (origin name script) fresh r s =
      (fst (run_script (script r) fresh), snd (run_script (script r) fresh), ?s1)"
    using Cons.prems by (simp add: WithCircuitBreaker_below_threshold origin_def case_prod_beta)
  have "failures (breaker ?s1) < failureThreshold (breaker ?s1)"
    using Cons.prems by simp
  from Cons.IH [OF this] step show ?case
    by (simp add: replicate_append_same)
qed

text \<open>
  Claim C1. The middleware only reads the failure counter: no path increments it or sets
  the instant of the last failure, so a breaker below its threshold forwards every request
  of any sequence, whatever the origin answers. With threshold 2 and a reset timeout of 30
  seconds, three consecutive requests at one instant, each answered by the origin with
  status 500, are all forwarded to the origin; the third is not rejected with 503, and the
  counter is still 0 afterwards.
\<close>

theorem breaker_never_opens:
  "map (\<lambda>x. wire_status (calls (conn_of (snd x))))
       (fst (serve (WithCircuitBreaker json_plain (origin ''contacts'' failing_script)) [req0, req0, req0] world0))
     = [Some 500, Some 500, Some 500]
   \<and> entered (snd (serve (WithCircuitBreaker json_plain (origin ''contacts'' failing_script)) [req0, req0, req0] world0))
     = [''contacts'', ''contacts'', ''contacts'']
   \<and> failures (breaker (snd (serve (WithCircuitBreaker json_plain (origin ''contacts'' failing_script)) [req0, req0, req0] world0))) = 0"
  by (simp add: WithCircuitBreaker_def isOpen_def world0_def NewCircuitBreaker_def origin_def
      failing_script_def fresh_def Let_def conn_WriteHeader_def conn_Write_def wroteHeader_def
      checkWriteHeaderCode_def informational_def)

subsection \<open>Cache keys\<close>

lemma Values_Get_Del:
  "Values_Get (Values_Del v k') k = (if k = k' then [] else Values_Get v k)"
  by (induction v) (auto simp: Values_Get_def Values_Del_def)

lemma Values_Get_foldl_Del:
  "Values_Get (foldl Values_Del v ks) k = (if k \<in> set ks then [] else Values_Get v k)"
proof (induction ks arbitrary: v)
  case Nil
  then show ?case by simp
next
  case (Cons a ks)
  show ?case
    by (simp add: Cons.IH Values_Get_Del)
qed

lemma Values_names: "set (map fst v) = {k. Values_Get v k \<noteq> []}"
  by (auto simp: Values_Get_def filter_empty_conv image_iff)

lemma Values_keys_cong:
  assumes "\<forall>k. Values_Get v1 k = Values_Get v2 k"
  shows "Values_keys v1 = Values_keys v2"
proof -
  from assms have "set (map fst v1) = set (map fst v2)"
    by (simp only: Values_names)
  then have "sorted_list_of_set (set (map fst v1)) = sorted_list_of_set (set (map fst v2))"
    by simp
  then show ?thesis
    by (simp only: Values_keys_def sorted_list_of_set_sort_remdups)
qed

lemma Values_Encode_cong:
  assumes "\<forall>k. Values_Get v1 k = Values_Get v2 k"
  shows "Values_Encode v1 = Values_Encode v2"
  using assms Values_keys_cong [OF assms] by (simp add: Values_Encode_def)

text \<open>
  Claim C3, amended. Two requests with the same method and path whose query strings give
  every name outside the ignored names the same sequence of values have the same cache
  key, whatever the order in which different names appear and whatever ignored parameters
  are present or absent.
\<close>

theorem GetKey_stable:
  assumes "Method r1 = Method r2" and "URL_Path r1 = URL_Path r2"
    and "\<forall>k. k \<notin> set (IgnoreParams (config rc)) \<longrightarrow>
           Values_Get (URL_Query r1) k = Values_Get (URL_Query r2) k"
  shows "GetKey sha256_hex rc r1 = GetKey sha256_hex rc r2"
proof -
  let ?q1 = "foldl Values_Del (URL_Query r1) (IgnoreParams (config rc))"
  let ?q2 = "foldl Values_Del (URL_Query r2) (IgnoreParams (config rc))"
  from assms(3) have "\<forall>k. Values_Get ?q1 k = Values_Get ?q2 k"
    by (simp add: Values_Get_foldl_Del)
  then have "Values_Encode ?q1 = Values_Encode ?q2"
    by (rule Values_Encode_cong)
  with assms(1,2) show ?thesis
    by (simp add: GetKey_def Let_def)
qed

theorem GetKey_stable_witness:
  "GetKey no_digest rc0 req_c = GetKey no_digest rc0 req_d
   \<and> GetKey no_digest rc0 req_c = ''api:GET:/contacts:city=New+York&page=2''"
proof -
  have m: "Method req_c = Method req_d" and p: "URL_Path req_c = URL_Path req_d"
    by (simp_all add: req_c_def req_d_def)
  have q: "\<forall>k. k \<notin> set (IgnoreParams (config rc0)) \<longrightarrow>
           Values_Get (URL_Query req_c) k = Values_Get (URL_Query req_d) k"
    by (simp add: rc0_def NewRedisCache_def cfg0_def req_c_def req_d_def Values_Get_def)
  have "GetKey no_digest rc0 req_c = ''api:GET:/contacts:city=New+York&page=2''"
    by code_simp
  with GetKey_stable [OF m p q, of no_digest] show ?thesis
    by simp
qed

text \<open>
  Claim C3 as stated fails when the order of the parameters matters within one name: two
  GET requests for \<open>/contacts\<close> carrying the same two parameters \<open>tag=a\<close> and \<open>tag=b\<close> in
  opposite orders get different keys, because \<open>Encode\<close> sorts the names only and keeps the
  values of one name in their order of appearance.
\<close>

theorem GetKey_order_counterexample:
  "Method req_a = Method req_b \<and> URL_Path req_a = URL_Path req_b
   \<and> mset (URL_Query req_a) = mset (URL_Query req_b)
   \<and> GetKey no_digest rc0 req_a = ''api:GET:/contacts:tag=a&tag=b''
   \<and> GetKey no_digest rc0 req_b = ''api:GET:/contacts:tag=b&tag=a''
   \<and> GetKey no_digest rc0 req_a \<noteq> GetKey no_digest rc0 req_b"
  by code_simp

subsection \<open>Cache-Aside\<close>

lemma w_WriteHeader_wrapper:
  "w_WriteHeader code (CacheResponseWriter u b st) =
     (fst (w_WriteHeader code u), CacheResponseWriter (snd (w_WriteHeader code u)) b code)"
  by (simp add: case_prod_beta)

lemma run_script_wrapper_outcome:
  "fst (run_script xs (CacheResponseWriter u b st)) = fst (run_script xs u)"
proof (induction xs arbitrary: u b st)
  case Nil
  then show ?case by simp
next
  case (Cons a xs)
  then show ?case
    by (cases a) (simp_all add: case_prod_beta del: w_WriteHeader.simps add: w_WriteHeader_wrapper)
qed

lemma run_script_wrapper_under:
  "cw_ResponseWriter (snd (run_script xs (CacheResponseWriter u b st))) = snd (run_script xs u)"
proof (induction xs arbitrary: u b st)
  case Nil
  then show ?case by simp
next
  case (Cons a xs)
  then show ?case
    by (cases a) (simp_all add: case_prod_beta del: w_WriteHeader.simps add: w_WriteHeader_wrapper)
qed

lemma run_script_wrapper_capture:
  "fst (run_script xs u) = Returned \<Longrightarrow>
   snd (run_script xs (CacheResponseWriter u b st)) =
     CacheResponseWriter (snd (run_script xs u)) (b @ script_body xs) (script_status st xs)"
proof (induction xs arbitrary: u b st)
  case Nil
  then show ?case by simp
next
  case (Cons a xs)
  then show ?case
    by (cases a)
      (simp_all add: case_prod_beta del: w_WriteHeader.simps add: w_WriteHeader_wrapper
        split: if_splits)
qed

lemma origin_capture:
  "origin name script (NewCacheResponseWriter w) r s =
     (fst (run_script (script r) w),
      snd (run_script (script r) (CacheResponseWriter w [] 0)),
      s\<lparr>entered := entered s @ [name]\<rparr>)"
  by (simp add: origin_def NewCacheResponseWriter_def case_prod_beta run_script_wrapper_outcome)




lemma replay_conn_valid:
  assumes "100 \<le> Status e" and "Status e \<le> 999"
  shows "replay e (Conn c) =
     (Returned, Conn \<lparr>hdr = hdr c ++ Headers e,
                       calls = calls c @ [WriteHeaderCall (Status e), WriteCall (Body e)]\<rparr>)"
  using assms
  by (simp add: replay_def Let_def conn_WriteHeader_def conn_Write_def checkWriteHeaderCode_def)

lemma replay_fresh_refused:
  assumes "Status e < 100 \<or> Status e > 999"
  shows "replay e fresh = (Panicked, Conn \<lparr>hdr = Headers e, calls = []\<rparr>)"
  using assms
  by (auto simp: replay_def Let_def fresh_def conn_WriteHeader_def wroteHeader_def
      checkWriteHeaderCode_def)

lemma CacheAside_hit:
  assumes "ShouldCache rc r" and "Fetch rc (GetKey h rc r) s = Inr (Some e)"
  shows "CacheAside_Apply h rc next_h w r s = (fst (replay e w), snd (replay e w), s)"
  using assms by (simp add: CacheAside_Apply_def Let_def case_prod_beta)

lemma CacheAside_miss:
  assumes "ShouldCache rc r" and "\<forall>e. Fetch rc (GetKey h rc r) s \<noteq> Inr (Some e)"
    and "fst (run_script (script r) w) = Returned"
  shows "CacheAside_Apply h rc (origin name script) w r s =
     (let w' = snd (run_script (script r) w);
          s1 = s\<lparr>entered := entered s @ [name]\<rparr>;
          (err, s2) = Store rc (GetKey h rc r) (miss_entry r script w) s1
      in case err of
           Some e \<Rightarrow> (Returned, w', s2\<lparr>stdout := stdout s2 @ [''Cache storage error: '' @ error_text e]\<rparr>)
         | None \<Rightarrow> (Returned, w', s2))"
proof -
  note cap = run_script_wrapper_capture [OF assms(3), of "[]" 0]
  show ?thesis
  proof (cases "Fetch rc (GetKey h rc r) s")
    case (Inl e)
    with assms(1,3) cap show ?thesis
      by (simp add: CacheAside_Apply_def Let_def miss_entry_def origin_capture
          split: prod.splits option.splits)
  next
    case (Inr found)
    with assms(2) have "found = None"
      by (cases found) simp_all
    with Inr assms(1,3) cap show ?thesis
      by (simp add: CacheAside_Apply_def Let_def miss_entry_def origin_capture
          split: prod.splits option.splits)
  qed
qed

lemma CacheAside_miss_panic:
  assumes "ShouldCache rc r" and "\<forall>e. Fetch rc (GetKey h rc r) s \<noteq> Inr (Some e)"
    and "fst (run_script (script r) w) = Panicked"
  shows "CacheAside_Apply h rc (origin name script) w r s =
     (Panicked, snd (run_script (script r) w), s\<lparr>entered := entered s @ [name]\<rparr>)"
proof (cases "Fetch rc (GetKey h rc r) s")
  case (Inl e)
  with assms(1,3) show ?thesis
    by (simp add: CacheAside_Apply_def Let_def origin_capture run_script_wrapper_under)
next
  case (Inr found)
  with assms(2) have "found = None"
    by (cases found) simp_all
  with Inr assms(1,3) show ?thesis
    by (simp add: CacheAside_Apply_def Let_def origin_capture run_script_wrapper_under)
qed

lemma Store_outcome:
  "Store rc key v s =
     (if redis_up s \<and> Marshal (serializer rc) v \<noteq> None
      then (None, s\<lparr>redis := (redis s)(key \<mapsto> (the (Marshal (serializer rc) v),
                   set_expiry (TTL (config rc)) (now s) (redis s key)))\<rparr>)
      else (Some (if Marshal (serializer rc) v = None then marshal_failed else redis_unreachable), s))"
  by (simp add: Store_def client_Set_def split: option.splits)

lemma CacheAside_miss_effect:
  assumes "ShouldCache rc r" and "\<forall>e. Fetch rc (GetKey h rc r) s \<noteq> Inr (Some e)"
    and "fst (run_script (script r) w) = Returned"
  shows "fst (CacheAside_Apply h rc (origin name script) w r s) = Returned"
    and "fst (snd (CacheAside_Apply h rc (origin name script) w r s)) = snd (run_script (script r) w)"
    and "entered (snd (snd (CacheAside_Apply h rc (origin name script) w r s))) = entered s @ [name]"
    and "redis_up s \<and> Marshal (serializer rc) (miss_entry r script w) = Some d \<longrightarrow>
           redis (snd (snd (CacheAside_Apply h rc (origin name script) w r s))) (GetKey h rc r) =
             Some (d, set_expiry (TTL (config rc)) (now s) (redis s (GetKey h rc r)))"
  by (simp_all add: CacheAside_miss [where script = script and r = r, OF assms] Store_outcome Let_def)

lemma key_get: "GetKey no_digest rc0 req0 = ''api:GET:/contacts/7:''"
  by code_simp

lemma key_put: "GetKey no_digest rc0 put0 = ''api:PUT:/contacts/7:''"
  by code_simp

lemma rc0_config: "config rc0 = cfg0"
  by (simp add: rc0_def NewRedisCache_def cfg0_def time_Second_def)

lemma rc0_serializer: "serializer rc0 = idser"
  by (simp add: rc0_def NewRedisCache_def)

lemma rc0_expiry: "set_expiry (TTL (config rc0)) 1000 old = Some 60000"
  by (simp add: rc0_config cfg0_def set_expiry_def usePrecise_def formatSec_def mstime_def
      time_Second_def time_Millisecond_def)

lemma should_req0: "ShouldCache rc0 req0"
  by (simp add: ShouldCache_def rc0_config cfg0_def req0_def MethodGet_def
      HasPrefix_def Header_Get_def)

lemma ok_script_run:
  "run_script (ok_script r) fresh = (Returned, Conn \<lparr>hdr = Map.empty, calls = [WriteCall ''ok'']\<rparr>)"
  "miss_entry r ok_script fresh = entry_zero"
  by (simp_all add: ok_script_def fresh_def conn_Write_def miss_entry_def entry_zero_def)

lemma update_script_run:
  "run_script (update_script r) fresh =
     (Returned, Conn \<lparr>hdr = Map.empty, calls = [WriteHeaderCall 200, WriteCall ''name=new'']\<rparr>)"
  "miss_entry r update_script fresh = \<lparr>Status = 200, Headers = Map.empty, Body = ''name=new''\<rparr>"
  by (simp_all add: update_script_def fresh_def conn_WriteHeader_def conn_Write_def wroteHeader_def
      checkWriteHeaderCode_def miss_entry_def)

lemma serve_Cons_proj:
  "serve h (r # rs) s =
     ((fst (h fresh r s), fst (snd (h fresh r s))) # fst (serve h rs (snd (snd (h fresh r s)))),
      snd (serve h rs (snd (snd (h fresh r s)))))"
  by (simp add: Let_def case_prod_beta)

text \<open>
  What holds of Cache-Aside for every request that \<open>ShouldCache\<close> accepts. When \<open>Fetch\<close>
  returns an entry, the handler's result is the replay of that entry on the caller's
  writer, with the state unchanged, for every next handler, so the origin is not run; when
  the stored status is one \<open>WriteHeader\<close> accepts (100 to 999), the replay on a connection
  lays the stored headers over the header map, calls \<open>WriteHeader\<close> with the stored status
  and \<open>Write\<close> with the stored body, and returns. When \<open>Fetch\<close> returns no entry and the
  origin returns, the origin has been entered once, the caller's writer has received
  exactly the origin's calls, and, Redis being reachable and the entry serializable, the
  entry the wrapper holds is in Redis under the request's key when the handler returns.
\<close>

lemma CacheAside_hit_and_miss:
  assumes "ShouldCache rc r"
  shows "(Fetch rc (GetKey h rc r) s = Inr (Some e) \<longrightarrow>
            CacheAside_Apply h rc next_h w r s = (fst (replay e w), snd (replay e w), s)
            \<and> (100 \<le> Status e \<and> Status e \<le> 999 \<longrightarrow>
                 replay e (Conn c) =
                   (Returned,
                    Conn \<lparr>hdr = hdr c ++ Headers e,
                          calls = calls c @ [WriteHeaderCall (Status e), WriteCall (Body e)]\<rparr>)))
       \<and> ((\<forall>e. Fetch rc (GetKey h rc r) s \<noteq> Inr (Some e)) \<and> fst (run_script (script r) w) = Returned \<longrightarrow>
            fst (CacheAside_Apply h rc (origin name script) w r s) = Returned
            \<and> fst (snd (CacheAside_Apply h rc (origin name script) w r s)) = snd (run_script (script r) w)
            \<and> entered (snd (snd (CacheAside_Apply h rc (origin name script) w r s))) = entered s @ [name]
            \<and> (redis_up s \<and> Marshal (serializer rc) (miss_entry r script w) = Some d \<longrightarrow>
                 redis (snd (snd (CacheAside_Apply h rc (origin name script) w r s))) (GetKey h rc r) =
                   Some (d, set_expiry (TTL (config rc)) (now s) (redis s (GetKey h rc r)))))"
proof -
  have hit: "CacheAside_Apply h rc next_h w r s = (fst (replay e w), snd (replay e w), s)"
    if "Fetch rc (GetKey h rc r) s = Inr (Some e)"
    using assms that by (rule CacheAside_hit)
  have valid: "replay e (Conn c) =
      (Returned,
       Conn \<lparr>hdr = hdr c ++ Headers e,
             calls = calls c @ [WriteHeaderCall (Status e), WriteCall (Body e)]\<rparr>)"
    if "100 \<le> Status e \<and> Status e \<le> 999"
    using that by (simp add: replay_conn_valid)
  have miss: "fst (CacheAside_Apply h rc (origin name script) w r s) = Returned
      \<and> fst (snd (CacheAside_Apply h rc (origin name script) w r s)) = snd (run_script (script r) w)
      \<and> entered (snd (snd (CacheAside_Apply h rc (origin name script) w r s))) = entered s @ [name]
      \<and> (redis_up s \<and> Marshal (serializer rc) (miss_entry r script w) = Some d \<longrightarrow>
            redis (snd (snd (CacheAside_Apply h rc (origin name script) w r s))) (GetKey h rc r) =
              Some (d, set_expiry (TTL (config rc)) (now s) (redis s (GetKey h rc r))))"
    if "\<forall>e. Fetch rc (GetKey h rc r) s \<noteq> Inr (Some e)" and "fst (run_script (script r) w) = Returned"
    using CacheAside_miss_effect [where script = script and r = r, OF assms that] by (intro conjI)
  from hit valid miss show ?thesis
    by blast
qed

text \<open>
  Claim C5. The capturing writer records a status only when \<open>WriteHeader\<close> is called, so
  for an origin that writes the body \<open>ok\<close> without calling it, as the repository's own
  read handler does, the miss path stores an entry with status 0. On the next request for
  the key \<open>Fetch\<close> returns that entry, the hit path passes 0 to \<open>WriteHeader\<close>, which
  panics, and neither the stored status nor the stored body reaches the connection.
\<close>

theorem CacheAside_replay_refused:
  "ShouldCache rc0 req0
   \<and> redis (snd (snd (CacheAside_Apply no_digest rc0 (origin ''contacts'' ok_script) fresh req0 world0)))
        (GetKey no_digest rc0 req0)
       = Some (entry_zero, Some 60000)
   \<and> Fetch rc0 (GetKey no_digest rc0 req0)
        (snd (snd (CacheAside_Apply no_digest rc0 (origin ''contacts'' ok_script) fresh req0 world0)))
       = Inr (Some entry_zero)
   \<and> Body entry_zero = ''ok''
   \<and> fst (CacheAside_Apply no_digest rc0 (origin ''contacts'' ok_script) fresh req0
        (snd (snd (CacheAside_Apply no_digest rc0 (origin ''contacts'' ok_script) fresh req0 world0))))
       = Panicked
   \<and> calls (conn_of (fst (snd (CacheAside_Apply no_digest rc0 (origin ''contacts'' ok_script) fresh req0
        (snd (snd (CacheAside_Apply no_digest rc0 (origin ''contacts'' ok_script) fresh req0 world0)))))))
       = []"
proof -
  let ?s1 = "snd (snd (CacheAside_Apply no_digest rc0 (origin ''contacts'' ok_script) fresh req0 world0))"
  have f_miss: "\<forall>e. Fetch rc0 (GetKey no_digest rc0 req0) world0 \<noteq> Inr (Some e)"
    by (simp add: key_get Fetch_def client_Get_def world0_def)
  have ret: "fst (run_script (ok_script req0) fresh) = Returned"
    by (simp add: ok_script_run)
  have up: "redis_up world0" and nw: "now world0 = 1000"
    by (simp_all add: world0_def)
  have first: "CacheAside_Apply no_digest rc0 (origin ''contacts'' ok_script) fresh req0 world0 =
      (Returned, Conn \<lparr>hdr = Map.empty, calls = [WriteCall ''ok'']\<rparr>,
       world0\<lparr>entered := entered world0 @ [''contacts''],
              redis := (redis world0)(''api:GET:/contacts/7:'' \<mapsto> (entry_zero, Some 60000))\<rparr>)"
    using up
    by (simp add: CacheAside_miss [where script = ok_script and r = req0, OF should_req0 f_miss ret]
        Store_outcome Let_def rc0_serializer idser_def ok_script_run key_get nw rc0_expiry)
  have stored: "redis ?s1 (GetKey no_digest rc0 req0) = Some (entry_zero, Some 60000)"
    unfolding first by (simp add: key_get)
  have fetch: "Fetch rc0 (GetKey no_digest rc0 req0) ?s1 = Inr (Some entry_zero)"
    unfolding first
    by (simp add: key_get Fetch_def client_Get_def expired_def mstime_def time_Millisecond_def rc0_serializer idser_def
        world0_def)
  have refused: "replay entry_zero fresh = (Panicked, Conn \<lparr>hdr = Headers entry_zero, calls = []\<rparr>)"
    by (rule replay_fresh_refused) (simp add: entry_zero_def)
  have again: "CacheAside_Apply no_digest rc0 (origin ''contacts'' ok_script) fresh req0 ?s1 =
      (Panicked, Conn \<lparr>hdr = Headers entry_zero, calls = []\<rparr>, ?s1)"
    using CacheAside_hit [OF should_req0 fetch, of "origin ''contacts'' ok_script" fresh] refused
    by simp
  have body: "Body entry_zero = ''ok''"
    by (simp add: entry_zero_def)
  from should_req0 stored fetch body again show ?thesis
    by simp
qed






subsection \<open>Write-Through\<close>

lemma GetKey_short:
  "length (KeyPrefix (config rc) @ '':'' @ Method r @ '':'' @ URL_Path r @ '':'' @
           Values_Encode (foldl Values_Del (URL_Query r) (IgnoreParams (config rc)))) \<le> 200 \<Longrightarrow>
   GetKey h rc r =
           KeyPrefix (config rc) @ '':'' @ Method r @ '':'' @ URL_Path r @ '':'' @
           Values_Encode (foldl Values_Del (URL_Query r) (IgnoreParams (config rc)))"
  by (simp add: GetKey_def Let_def)

lemma GetKey_method_separates:
  assumes "Method r \<noteq> ''GET''"
    and "GetKey h rc r =
           KeyPrefix (config rc) @ '':'' @ Method r @ '':'' @ URL_Path r @ '':'' @
           Values_Encode (foldl Values_Del (URL_Query r) (IgnoreParams (config rc)))"
    and "GetKey h rc (r\<lparr>Method := ''GET''\<rparr>) =
           KeyPrefix (config rc) @ '':'' @ ''GET'' @ '':'' @ URL_Path r @ '':'' @
           Values_Encode (foldl Values_Del (URL_Query r) (IgnoreParams (config rc)))"
  shows "GetKey h rc r \<noteq> GetKey h rc (r\<lparr>Method := ''GET''\<rparr>)"
proof
  assume "GetKey h rc r = GetKey h rc (r\<lparr>Method := ''GET''\<rparr>)"
  with assms(2,3) have "Method r @ '':'' @ URL_Path r @ '':'' @
           Values_Encode (foldl Values_Del (URL_Query r) (IgnoreParams (config rc)))
      = ''GET'' @ '':'' @ URL_Path r @ '':'' @
           Values_Encode (foldl Values_Del (URL_Query r) (IgnoreParams (config rc)))"
    by (simp only: same_append_eq append_assoc)
  then have "Method r = ''GET''"
    by (simp only: append_same_eq)
  with assms(1) show False
    by simp
qed

lemma WriteThrough_mutation_effect:
  assumes "Method r \<noteq> ''GET''"
  shows "fst (WriteThrough_Apply h rc (origin name script) w r s) = fst (run_script (script r) w)"
    and "fst (snd (WriteThrough_Apply h rc (origin name script) w r s)) = snd (run_script (script r) w)"
    and "stdout (snd (snd (WriteThrough_Apply h rc (origin name script) w r s))) = stdout s"
    and "entered (snd (snd (WriteThrough_Apply h rc (origin name script) w r s))) = entered s @ [name]"
  using assms
  by (cases "fst (run_script (script r) w)";
      simp add: WriteThrough_Apply_def Let_def origin_capture run_script_wrapper_under
        Store_outcome case_prod_beta)+

text \<open>
  Claim C2. \<open>WriteThrough.Apply\<close> derives the key of a mutating request from the request
  itself, and the key contains the method, so that a key short enough to be kept as it is
  differs from the key of the read of the same resource. A successful \<open>PUT /contacts/7\<close> is
  stored under \<open>api:PUT:/contacts/7:\<close>, the following \<open>GET /contacts/7\<close> looks up
  \<open>api:GET:/contacts/7:\<close>, misses, and is answered by the origin, which is entered a second
  time.
\<close>

theorem write_through_key_differs:
  "GetKey no_digest rc0 put0 = ''api:PUT:/contacts/7:''
   \<and> GetKey no_digest rc0 (put0\<lparr>Method := ''GET''\<rparr>) = ''api:GET:/contacts/7:''
   \<and> fst (serve (WriteThrough_Apply no_digest rc0 (origin ''contacts'' update_script))
             [put0, put0\<lparr>Method := ''GET''\<rparr>] world0)
       = [(Returned, Conn \<lparr>hdr = Map.empty, calls = [WriteHeaderCall 200, WriteCall ''name=new'']\<rparr>),
          (Returned, Conn \<lparr>hdr = Map.empty, calls = [WriteHeaderCall 200, WriteCall ''name=new'']\<rparr>)]
   \<and> dom (redis (snd (snd (WriteThrough_Apply no_digest rc0 (origin ''contacts'' update_script) fresh put0 world0))))
       = {''api:PUT:/contacts/7:''}
   \<and> Fetch rc0 (GetKey no_digest rc0 (put0\<lparr>Method := ''GET''\<rparr>))
        (snd (snd (WriteThrough_Apply no_digest rc0 (origin ''contacts'' update_script) fresh put0 world0)))
       = Inr None
   \<and> entered (snd (serve (WriteThrough_Apply no_digest rc0 (origin ''contacts'' update_script))
             [put0, put0\<lparr>Method := ''GET''\<rparr>] world0))
       = [''contacts'', ''contacts'']"
proof -
  have g: "put0\<lparr>Method := ''GET''\<rparr> = req0"
    by (simp add: put0_def req0_def)
  have m: "Method put0 \<noteq> ''GET''" "Method req0 = ''GET''"
    by (simp_all add: put0_def req0_def)
  have cap: "snd (run_script (update_script put0) (CacheResponseWriter fresh [] 0)) =
      CacheResponseWriter (Conn \<lparr>hdr = Map.empty, calls = [WriteHeaderCall 200, WriteCall ''name=new'']\<rparr>)
        ''name=new'' 200"
    by (simp add: update_script_def fresh_def conn_WriteHeader_def conn_Write_def wroteHeader_def
        checkWriteHeaderCode_def)
  let ?s1 = "world0\<lparr>entered := [''contacts''],
                redis := [''api:PUT:/contacts/7:'' \<mapsto>
                  (\<lparr>Status = 200, Headers = Map.empty, Body = ''name=new''\<rparr>, Some 60000)]\<rparr>"
  have first: "WriteThrough_Apply no_digest rc0 (origin ''contacts'' update_script) fresh put0 world0
      = (Returned, Conn \<lparr>hdr = Map.empty, calls = [WriteHeaderCall 200, WriteCall ''name=new'']\<rparr>, ?s1)"
    using m(1)
    by (simp add: WriteThrough_Apply_def key_put Let_def origin_capture cap update_script_run
        StatusOK_def Store_outcome rc0_expiry rc0_serializer idser_def world0_def)
  have miss: "Fetch rc0 (GetKey no_digest rc0 req0) ?s1 = Inr None"
    by (simp add: key_get Fetch_def client_Get_def world0_def)
  then have nohit: "\<forall>e. Fetch rc0 (GetKey no_digest rc0 req0) ?s1 \<noteq> Inr (Some e)"
    by simp
  have ret: "fst (run_script (update_script req0) fresh) = Returned"
    by (simp add: update_script_run)
  have second: "fst (WriteThrough_Apply no_digest rc0 (origin ''contacts'' update_script) fresh req0 ?s1)
        = Returned
      \<and> fst (snd (WriteThrough_Apply no_digest rc0 (origin ''contacts'' update_script) fresh req0 ?s1))
        = Conn \<lparr>hdr = Map.empty, calls = [WriteHeaderCall 200, WriteCall ''name=new'']\<rparr>
      \<and> entered (snd (snd (WriteThrough_Apply no_digest rc0 (origin ''contacts'' update_script) fresh req0 ?s1)))
        = [''contacts'', ''contacts'']"
  proof -
    have "WriteThrough_Apply no_digest rc0 (origin ''contacts'' update_script) fresh req0 ?s1
        = CacheAside_Apply no_digest rc0 (origin ''contacts'' update_script) fresh req0 ?s1"
      using m(2) by (simp add: WriteThrough_Apply_def)
    with CacheAside_miss_effect(1,2,3) [where script = update_script and r = req0,
        OF should_req0 nohit ret, of "''contacts''"]
    show ?thesis
      by (simp add: update_script_run)
  qed
  show ?thesis
    using first second miss
    by (simp add: g key_get key_put serve_Cons_proj del: serve.simps(2))
qed

text \<open>
  Claim C6. With Redis unreachable, a successful \<open>PUT\<close> under Write-Through stores nothing
  and prints nothing: the error returned by \<open>Store\<close> is dropped. Cache-Aside prints the
  error for a \<open>GET\<close> in the same state.
\<close>

theorem write_through_store_failure_silent:
  "redis (snd (snd (WriteThrough_Apply no_digest rc0 (origin ''contacts'' update_script) fresh put0 world_down)))
     = Map.empty
   \<and> stdout (snd (snd (WriteThrough_Apply no_digest rc0 (origin ''contacts'' update_script) fresh put0 world_down)))
     = []
   \<and> stdout (snd (snd (CacheAside_Apply no_digest rc0 (origin ''contacts'' update_script) fresh req0 world_down)))
       = [''Cache storage error: redis: connection refused'']"
proof -
  have m: "Method put0 \<noteq> ''GET''"
    by (simp add: put0_def)
  have cap: "snd (run_script (update_script put0) (CacheResponseWriter fresh [] 0)) =
      CacheResponseWriter (Conn \<lparr>hdr = Map.empty, calls = [WriteHeaderCall 200, WriteCall ''name=new'']\<rparr>)
        ''name=new'' 200"
    by (simp add: update_script_def fresh_def conn_WriteHeader_def conn_Write_def wroteHeader_def
        checkWriteHeaderCode_def)
  have wt: "snd (snd (WriteThrough_Apply no_digest rc0 (origin ''contacts'' update_script) fresh put0 world_down))
      = world_down\<lparr>entered := [''contacts'']\<rparr>"
    using m
    by (simp add: WriteThrough_Apply_def key_put Let_def origin_capture cap update_script_run
        StatusOK_def Store_outcome rc0_serializer idser_def world_down_def world0_def)
  have nohit: "\<forall>e. Fetch rc0 (GetKey no_digest rc0 req0) world_down \<noteq> Inr (Some e)"
    by (simp add: Fetch_def client_Get_def world_down_def world0_def)
  have ret: "fst (run_script (update_script req0) fresh) = Returned"
    by (simp add: update_script_run)
  have ca: "stdout (snd (snd (CacheAside_Apply no_digest rc0 (origin ''contacts'' update_script) fresh req0 world_down)))
       = [''Cache storage error: redis: connection refused'']"
    unfolding CacheAside_miss [where script = update_script and r = req0, OF should_req0 nohit ret]
    by (simp add: Store_outcome Let_def rc0_serializer idser_def
        world_down_def world0_def error_text_def)
  from wt ca show ?thesis
    by (simp add: world_down_def world0_def)
qed

end
